theory Spec2Isabelle
  imports Complex_Main "HOL-Library.Product_Lexorder"
begin

section \<open>Data model of the API client (frontend/src/lib/api.ts)\<close>

text \<open>
  The TypeScript interfaces become records. A TypeScript \<open>number\<close> is modelled by the
  kind of value the code puts into it: \<open>nat\<close> for identifiers, slots and counts (they all
  come from array indices, array lengths and non-negative literals), \<open>int\<close> for the signed
  objective value, and \<open>rat\<close> for coordinates, percentages and pollution levels, where
  the arithmetic of the source is read exactly (no rounding to binary floating point).
  An optional or nullable field is an \<open>option\<close>. Strings are byte lists; the one
  non-ASCII character of the source, the em dash, is written as its three UTF-8 bytes.
  Several records share field names, so selectors are written qualified
  (\<open>HubUsageItem.hub_id\<close>) wherever the short name would be ambiguous.
\<close>

record OptimizeParams =
  num_trucks :: nat
  num_hubs :: nat
  budget :: rat
  peak_multiplier :: rat
  with_optimization :: bool

record HubUsageItem =
  hub_id :: nat
  assigned :: nat
  capacity :: nat
  utilization_pct :: rat

record CongestionPerTimeItem =
  slot_id :: nat
  hour :: nat
  trucks :: nat

record PollutionPerZoneItem =
  zone_id :: nat
  pollution_level :: rat
  truck_count :: nat

record HubMapItem =
  hub_id :: nat
  zone_id :: nat
  lon :: rat
  lat :: rat
  usage :: nat

record ZoneGeometry =
  type :: string
  coordinates :: "rat list list list"

record ZoneProperties =
  zone_id :: nat
  pollution :: rat
  congestion :: nat
  is_green :: bool

record ZoneFeature =
  type :: string
  geometry :: ZoneGeometry
  properties :: ZoneProperties

record ZonesGeoJson =
  type :: string
  features :: "ZoneFeature list"

record ZoneCell =
  i :: nat
  j :: nat
  x :: rat
  y :: rat

record ZoneMeta =
  zone_id :: nat
  pollution :: rat
  is_green :: bool

record MapHub =
  hub_id :: nat
  row :: nat
  col :: nat
  x :: rat
  y :: rat

record RoutePoint =
  x :: rat
  y :: rat

record ArtificialMapData =
  rows :: nat
  cols :: nat
  zone_cells :: "string \<rightharpoonup> ZoneCell list"
  zone_meta :: "ZoneMeta list"
  hubs :: "MapHub list"
  routes :: "RoutePoint list list"

record Delivery =
  delivery_id :: string
  truck_id :: nat
  driver_id :: nat
  driver_name :: string
  from_zone_id :: nat
  from_address :: string
  to_hub_id :: nat
  to_address :: string
  scheduled_slot :: nat
  scheduled_time :: string
  status :: string

record DriverTip =
  truck_id :: nat
  hub_id :: nat
  slot_id :: nat
  tip :: string

record IncomingByZone =
  zone_id :: nat
  slot_id :: nat
  trucks :: nat

record QuietSlots =
  zone_id :: nat
  suggested_slots :: "nat list"

record PlatformSummary =
  total_distance :: nat
  total_congestion_cost :: nat
  revenue :: nat
  driver_tips :: "DriverTip list"
  incoming_by_zone :: "IncomingByZone list"
  quiet_slots_by_zone :: "QuietSlots list"
  green_zones :: "nat list"
  n_trucks_assigned :: nat

record TruckAssignment =
  truck_id :: nat
  hub_id :: nat
  slot_id :: nat

record OptimizeResponse =
  truck_assignments :: "TruckAssignment list"
  hub_usage :: "HubUsageItem list"
  congestion_per_time :: "CongestionPerTimeItem list"
  pollution_per_zone :: "PollutionPerZoneItem list"
  green_zones :: "nat list"
  zones_geojson :: ZonesGeoJson
  hubs :: "HubMapItem list"
  status :: string
  objective_value :: "int option"
  n_assigned :: nat
  artificial_map :: "ArtificialMapData option"
  platform_summary :: "PlatformSummary option"
  deliveries :: "Delivery list option"
  last_updated :: "string option"

record DemoResult =
  data :: OptimizeResponse
  fromApi :: bool

section \<open>JavaScript string helpers used by the template literals\<close>

text \<open>\<open>String(n)\<close> for a non-negative integer: its decimal digits.\<close>

definition digit_char :: "nat \<Rightarrow> char" where
  "digit_char d = ''0123456789'' ! (d mod 10)"

function String_of :: "nat \<Rightarrow> string" where
  "String_of n = (if n < 10 then [digit_char n] else String_of (n div 10) @ [digit_char (n mod 10)])"
  by pat_completeness auto
termination
  by (relation "measure (\<lambda>n. n)") auto

text \<open>\<open>s.padStart(n, c)\<close> with a one-character pad string.\<close>

definition padStart :: "string \<Rightarrow> nat \<Rightarrow> char \<Rightarrow> string" where
  "padStart s n c = (if n \<le> length s then s else replicate (n - length s) c @ s)"

definition em_dash :: string where
  "em_dash = [CHR 0xE2, CHR 0x80, CHR 0x94]"

text \<open>\<open>xs.includes(v)\<close>.\<close>

definition array_includes :: "nat list \<Rightarrow> nat \<Rightarrow> bool" where
  "array_includes xs v = List.member xs v"

section \<open>The fallback demo response (getFallbackDemo)\<close>

text \<open>
  Every \<open>const\<close> of the body of \<open>getFallbackDemo\<close> is a definition of the same name; the
  local array \<open>hubs\<close> of hub labels is \<open>hubLabels\<close> here, because \<open>hubs\<close> is also a field of
  the response, and \<open>deliveries\<close> and \<open>features\<close> carry the suffix \<open>_local\<close> for the same reason. \<open>Array.from({ length: n }, (_, k) => f k)\<close> is \<open>map f [0..<n]\<close>, and
  \<open>xs.map((a, k) => f a k)\<close> is \<open>map (\<lambda>(a, k). f a k) (zip xs [0..<length xs])\<close>.
\<close>

definition drivers :: "string list" where
  "drivers = [''Mike Smith'', ''Carlos Garcia'', ''James Chen'', ''Maria Rodriguez'', ''David Lee'']"

definition origins :: "string list" where
  "origins = [''Bronx Produce Co.'', ''Hunts Point Terminal'', ''Fresh Direct Depot'',
              ''Food Center Drive'', ''Southern Blvd Warehouse'']"

definition hubLabels :: "string list" where
  "hubLabels = [''Hub 1 '' @ em_dash @ '' Hunts Point Charging'', ''Hub 2 '' @ em_dash @ '' Food Center'',
                ''Hub 3 '' @ em_dash @ '' Oak Point'', ''Hub 4 '' @ em_dash @ '' Lafayette'']"

definition statuses :: "string list" where
  "statuses = [''scheduled'', ''en_route'', ''at_hub'', ''completed'']"

definition truckAssignments :: "TruckAssignment list" where
  "truckAssignments =
     map (\<lambda>k. \<lparr>TruckAssignment.truck_id = k,
               TruckAssignment.hub_id = k mod 4,
               TruckAssignment.slot_id = (k * 5) mod 24\<rparr>) [0..<24]"

definition deliveries_local :: "Delivery list" where
  "deliveries_local =
     map (\<lambda>(a, k).
            \<lparr>delivery_id = ''D-'' @ String_of (1000 + k),
             Delivery.truck_id = TruckAssignment.truck_id a,
             driver_id = TruckAssignment.truck_id a,
             driver_name = drivers ! (k mod length drivers),
             from_zone_id = k mod 5,
             from_address = origins ! (k mod length origins),
             to_hub_id = TruckAssignment.hub_id a,
             to_address = hubLabels ! TruckAssignment.hub_id a,
             scheduled_slot = TruckAssignment.slot_id a,
             scheduled_time = padStart (String_of (TruckAssignment.slot_id a)) 2 CHR ''0'' @ '':00'',
             Delivery.status = statuses ! (k mod length statuses)\<rparr>)
         (zip truckAssignments [0..<length truckAssignments])"

definition hubUsage :: "HubUsageItem list" where
  "hubUsage =
     (let literals = [12, 8, 10, 6]
      in map (\<lambda>(assigned_lit, k).
                \<lparr>HubUsageItem.hub_id = k,
                 assigned = assigned_lit,
                 capacity = 20,
                 utilization_pct = (100 * of_nat assigned_lit) / 20\<rparr>)
             (zip literals [0..<length literals]))"

definition congestionPerTime :: "CongestionPerTimeItem list" where
  "congestionPerTime =
     map (\<lambda>s. \<lparr>CongestionPerTimeItem.slot_id = s,
               hour = s,
               CongestionPerTimeItem.trucks =
                 (let n = length (filter (\<lambda>a. TruckAssignment.slot_id a = s) truckAssignments)
                  in if n \<noteq> 0 then n else (if s mod 4 = 0 then 2 else 0))\<rparr>) [0..<24]"

definition pollutionPerZone :: "PollutionPerZoneItem list" where
  "pollutionPerZone =
     map (\<lambda>z. \<lparr>PollutionPerZoneItem.zone_id = z,
               pollution_level = 0.2 + 0.6 * (of_nat z / 10),
               truck_count = (if z < 5 then 3 else 2)\<rparr>) [0..<10]"

definition features_local :: "ZoneFeature list" where
  "features_local =
     map (\<lambda>z. \<lparr>ZoneFeature.type = ''Feature'',
               geometry = \<lparr>ZoneGeometry.type = ''Polygon'',
                           coordinates = [[[0, 0], [1, 0], [1, 1], [0, 1], [0, 0]]]\<rparr>,
               properties = \<lparr>ZoneProperties.zone_id = z,
                             ZoneProperties.pollution = 0.5,
                             congestion = 2,
                             ZoneProperties.is_green = array_includes [0, 2, 5] z\<rparr>\<rparr>) [0..<10]"

definition hubList :: "HubMapItem list" where
  "hubList =
     [\<lparr>HubMapItem.hub_id = 0, HubMapItem.zone_id = 0, lon = -73.88, lat = 40.82, usage = 12\<rparr>,
      \<lparr>HubMapItem.hub_id = 1, HubMapItem.zone_id = 1, lon = -73.875, lat = 40.82, usage = 8\<rparr>,
      \<lparr>HubMapItem.hub_id = 2, HubMapItem.zone_id = 2, lon = -73.88, lat = 40.815, usage = 10\<rparr>,
      \<lparr>HubMapItem.hub_id = 3, HubMapItem.zone_id = 3, lon = -73.875, lat = 40.815, usage = 6\<rparr>]"

text \<open>The \<open>for\<close> loop that fills \<open>zoneCells\<close>, one key per zone, starting from the empty object.\<close>

definition zoneCells :: "string \<rightharpoonup> ZoneCell list" where
  "zoneCells =
     fold (\<lambda>z m. m(String_of z \<mapsto> [\<lparr>i = 0, j = 0, ZoneCell.x = 0.5, ZoneCell.y = 0.5\<rparr>]))
          [0..<10] Map.empty"

definition artificialMap :: ArtificialMapData where
  "artificialMap =
     \<lparr>rows = 12,
      cols = 12,
      zone_cells = zoneCells,
      zone_meta = map (\<lambda>p. \<lparr>ZoneMeta.zone_id = PollutionPerZoneItem.zone_id p,
                             ZoneMeta.pollution = pollution_level p,
                             ZoneMeta.is_green = array_includes [0, 2, 5] (PollutionPerZoneItem.zone_id p)\<rparr>)
                      pollutionPerZone,
      ArtificialMapData.hubs =
        map (\<lambda>(h, k). \<lparr>MapHub.hub_id = HubMapItem.hub_id h, row = 2 + k, col = 2 + k,
                        MapHub.x = (2.5 + of_nat k) / 12, MapHub.y = (2.5 + of_nat k) / 12\<rparr>)
            (zip hubList [0..<length hubList]),
      routes = map (\<lambda>_. [\<lparr>RoutePoint.x = 0.2, RoutePoint.y = 0.2\<rparr>,
                          \<lparr>RoutePoint.x = 0.5, RoutePoint.y = 0.5\<rparr>,
                          \<lparr>RoutePoint.x = 0.8, RoutePoint.y = 0.8\<rparr>]) truckAssignments\<rparr>"

definition driverTips :: "DriverTip list" where
  "driverTips =
     map (\<lambda>a. \<lparr>DriverTip.truck_id = TruckAssignment.truck_id a,
               DriverTip.hub_id = TruckAssignment.hub_id a,
               DriverTip.slot_id = TruckAssignment.slot_id a,
               tip = ''Charge at '' @ hubLabels ! TruckAssignment.hub_id a @ '', ''
                     @ padStart (String_of (TruckAssignment.slot_id a)) 2 CHR ''0''
                     @ '':00. Off-peak '' @ em_dash @ '' good for energy saving.''\<rparr>)
         truckAssignments"

definition platformSummary :: PlatformSummary where
  "platformSummary =
     \<lparr>total_distance = 420,
      total_congestion_cost = 85,
      revenue = 3200,
      driver_tips = driverTips,
      incoming_by_zone = [\<lparr>IncomingByZone.zone_id = 0, IncomingByZone.slot_id = 6, IncomingByZone.trucks = 3\<rparr>,
                          \<lparr>IncomingByZone.zone_id = 1, IncomingByZone.slot_id = 10, IncomingByZone.trucks = 2\<rparr>],
      quiet_slots_by_zone = map (\<lambda>z. \<lparr>QuietSlots.zone_id = z, suggested_slots = [0, 1, 2, 3, 4]\<rparr>) [0..<10],
      PlatformSummary.green_zones = [0, 2, 5],
      n_trucks_assigned = 24\<rparr>"

text \<open>
  The only input of \<open>getFallbackDemo\<close> is the clock: \<open>now\<close> is the value of
  \<open>new Date().toISOString()\<close> at the call.
\<close>

definition getFallbackDemo :: "string \<Rightarrow> OptimizeResponse" where
  "getFallbackDemo now =
     \<lparr>truck_assignments = truckAssignments,
      hub_usage = hubUsage,
      congestion_per_time = congestionPerTime,
      pollution_per_zone = pollutionPerZone,
      OptimizeResponse.green_zones = [0, 2, 5],
      zones_geojson = \<lparr>ZonesGeoJson.type = ''FeatureCollection'', features = features_local\<rparr>,
      OptimizeResponse.hubs = hubList,
      OptimizeResponse.status = ''Optimal'',
      objective_value = Some (- 10000),
      n_assigned = 24,
      artificial_map = Some artificialMap,
      platform_summary = Some platformSummary,
      deliveries = Some deliveries_local,
      last_updated = Some now\<rparr>"

section \<open>Reading a response: counts over the assignment list\<close>

text \<open>
  The quantities the specification speaks about, written from its words: the number of
  assignments at a hub, at a slot, and at a hub in a slot.
\<close>

definition count_at_hub :: "TruckAssignment list \<Rightarrow> nat \<Rightarrow> nat" where
  "count_at_hub as h = length (filter (\<lambda>a. TruckAssignment.hub_id a = h) as)"

definition count_at_slot :: "TruckAssignment list \<Rightarrow> nat \<Rightarrow> nat" where
  "count_at_slot as s = length (filter (\<lambda>a. TruckAssignment.slot_id a = s) as)"

definition count_at_hub_slot :: "TruckAssignment list \<Rightarrow> nat \<Rightarrow> nat \<Rightarrow> nat" where
  "count_at_hub_slot as h s =
     length (filter (\<lambda>a. TruckAssignment.hub_id a = h \<and> TruckAssignment.slot_id a = s) as)"

text \<open>
  The specification's quiet-slot rule: the trucks incoming in slot \<open>s\<close> for the hubs located in
  zone \<open>z\<close>, and the \<open>n\<close> slots of the day with the fewest of them, ranked ascending by that
  count, ties broken by slot id ascending. The specification does not fix \<open>n\<close>; the facts
  below take 5, the length of the lists in the code and the number of slots that
  BusinessView shows (\<open>suggested_slots.slice(0, 5)\<close>).
\<close>

definition incoming_trucks :: "OptimizeResponse \<Rightarrow> nat \<Rightarrow> nat \<Rightarrow> nat" where
  "incoming_trucks r z s =
     length (filter (\<lambda>a. TruckAssignment.slot_id a = s \<and>
                          (\<exists>h \<in> set (OptimizeResponse.hubs r).
                              HubMapItem.hub_id h = TruckAssignment.hub_id a \<and> HubMapItem.zone_id h = z))
                    (truck_assignments r))"

definition quietest_slots :: "OptimizeResponse \<Rightarrow> nat \<Rightarrow> nat \<Rightarrow> nat list" where
  "quietest_slots r z n = take n (sort_key (\<lambda>s. (incoming_trucks r z s, s)) [0..<24])"

text \<open>
  The consumer's lookup of a zone's suggestion (BusinessView):
  \<open>summary?.quiet_slots_by_zone?.find((q) => q.zone_id === selectedZone)\<close>.
\<close>

definition quiet_slots_of :: "OptimizeResponse \<Rightarrow> nat \<Rightarrow> nat list option" where
  "quiet_slots_of r z =
     (case platform_summary r of
        None \<Rightarrow> None
      | Some summary \<Rightarrow>
          map_option suggested_slots (find (\<lambda>q. QuietSlots.zone_id q = z) (quiet_slots_by_zone summary)))"

text \<open>
  Status tags are compared up to letter case: \<open>s.toLowerCase()\<close> on ASCII letters.
\<close>

definition toLowerCase :: "string \<Rightarrow> string" where
  "toLowerCase s =
     map (\<lambda>c. case map_of (zip ''ABCDEFGHIJKLMNOPQRSTUVWXYZ'' ''abcdefghijklmnopqrstuvwxyz'') c of
                 Some l \<Rightarrow> l
               | None \<Rightarrow> c) s"

section \<open>Loading the demo (fetchWithTimeout, fetchDemo)\<close>

text \<open>
  Promises are modelled by how they settle, or by the fact that they never do. An exception
  or a rejected promise is a value of \<open>js_error\<close>; \<open>await\<close> of a rejected promise is the
  \<open>Inl\<close> branch of a sum, and \<open>await\<close> of a promise that stays pending never continues.
\<close>

datatype js_error = AbortError | NetworkError | SyntaxError | TypeError | Error string

text \<open>
  What \<open>res.json()\<close> resolves to on the error path, as far as the code reads it: \<open>null\<close>, or
  any other value with its \<open>detail\<close> property (\<open>None\<close> when the property is absent; the value
  is given by its string conversion) and the result of \<open>String(err)\<close>.
\<close>

datatype err_json = JsonNull | JsonValue (detail: "string option") (toString: string)

text \<open>
  The promise of the body read \<open>res.json()\<close>: it settles, with a rejection or with the parsed
  value, or it stays pending for ever (the headers have arrived, the body never completes).
  Nothing bounds it: \<open>fetchWithTimeout\<close> clears its timer as soon as the fetch promise
  settles, which is when the headers arrive, and the abort can no longer fire.
\<close>

datatype 'a body_read = Body_pending | Body_settled "js_error + 'a"

text \<open>
  The settled \<open>fetch\<close> promise: rejected, or resolved with a \<open>Response\<close> whose \<open>ok\<close> flag
  is false (with its \<open>statusText\<close> and the behaviour of \<open>res.json()\<close>) or true (with the
  behaviour of \<open>res.json()\<close>, read at the type \<open>OptimizeResponse\<close> that the signature of
  \<open>fetchDemo\<close> gives it).
\<close>

datatype fetch_outcome =
    Rejected js_error
  | Resolved_not_ok string "err_json body_read"
  | Resolved_ok "OptimizeResponse body_read"

text \<open>
  The network behind \<open>fetch\<close>: the promise settles after some milliseconds, or never.
\<close>

datatype network = Settles nat fetch_outcome | Never_settles

definition DEMO_TIMEOUT_MS :: nat where
  "DEMO_TIMEOUT_MS = 8000"

text \<open>
  \<open>fetchWithTimeout\<close>: the timer aborts the request after \<open>ms\<close> milliseconds unless the fetch
  promise has settled before, in which case \<open>finally\<close> clears the timer and the outcome passes
  through. An aborted fetch rejects with \<open>AbortError\<close>. A fetch that settles in the very
  millisecond of the deadline is counted as aborted.
\<close>

fun fetchWithTimeout :: "network \<Rightarrow> nat \<Rightarrow> fetch_outcome" where
  "fetchWithTimeout (Settles t out) ms = (if t < ms then out else Rejected AbortError)"
| "fetchWithTimeout Never_settles ms = Rejected AbortError"

text \<open>
  The \<open>try\<close> block of \<open>fetchDemo\<close>. \<open>None\<close> means that the block never finishes, because an
  awaited promise stays pending; \<open>Some (Inl e)\<close> is the exception that leaves the block and
  \<open>Some (Inr r)\<close> the value it returns. On a response that is not ok,
  \<open>res.json().catch(() => ({ detail: res.statusText }))\<close> replaces a rejected body read by an
  object holding the status text (a pending body read stays pending), and the block then
  always throws: \<open>TypeError\<close> when \<open>err\<close> is \<open>null\<close> (reading \<open>err.detail\<close>), otherwise
  \<open>new Error(err.detail || String(err))\<close>, where an absent or empty \<open>detail\<close> is falsy.
\<close>

fun fetchDemo_try :: "fetch_outcome \<Rightarrow> (js_error + DemoResult) option" where
  "fetchDemo_try (Rejected e) = Some (Inl e)"
| "fetchDemo_try (Resolved_not_ok statusText body) =
     (case body of
        Body_pending \<Rightarrow> None
      | Body_settled b \<Rightarrow>
          (let err = (case b of
                        Inl _ \<Rightarrow> JsonValue (Some statusText) ''[object Object]''
                      | Inr v \<Rightarrow> v)
           in case err of
                JsonNull \<Rightarrow> Some (Inl TypeError)
              | JsonValue d str \<Rightarrow>
                  Some (Inl (Error (case d of None \<Rightarrow> str
                                    | Some msg \<Rightarrow> if msg = [] then str else msg)))))"
| "fetchDemo_try (Resolved_ok body) =
     (case body of
        Body_pending \<Rightarrow> None
      | Body_settled (Inl e) \<Rightarrow> Some (Inl e)
      | Body_settled (Inr v) \<Rightarrow> Some (Inr \<lparr>data = v, fromApi = True\<rparr>))"

text \<open>
  \<open>fetchDemo\<close>: the \<open>try\<close> block, and the \<open>catch\<close> that answers every exception with the
  fallback response. \<open>net\<close> is the behaviour of the network and \<open>now\<close> the clock, read by
  \<open>getFallbackDemo\<close>. \<open>None\<close> means that the promise of \<open>fetchDemo\<close> never settles.
\<close>

definition fetchDemo :: "network \<Rightarrow> string \<Rightarrow> DemoResult option" where
  "fetchDemo net now =
     (case fetchDemo_try (fetchWithTimeout net DEMO_TIMEOUT_MS) of
        None \<Rightarrow> None
      | Some (Inr result) \<Rightarrow> Some result
      | Some (Inl _) \<Rightarrow> Some \<lparr>data = getFallbackDemo now, fromApi = False\<rparr>)"

text \<open>
  The route lookup of DriverView:
  \<open>data?.artificial_map?.routes?.[data.truck_assignments?.findIndex((a) => a.truck_id === selectedTruck) ?? 0]\<close>.
  \<open>findIndex\<close> is \<open>-1\<close> when no element matches, and an index outside the array reads
  \<open>undefined\<close>. \<open>truck_assignments\<close> is a required field, so the \<open>?? 0\<close> is never used.
\<close>

fun findIndex :: "('a \<Rightarrow> bool) \<Rightarrow> 'a list \<Rightarrow> int" where
  "findIndex P [] = - 1"
| "findIndex P (a # as) = (if P a then 0 else (let k = findIndex P as in if k < 0 then - 1 else k + 1))"

definition driver_route :: "OptimizeResponse \<Rightarrow> nat \<Rightarrow> RoutePoint list option" where
  "driver_route r selectedTruck =
     (case artificial_map r of
        None \<Rightarrow> None
      | Some m \<Rightarrow>
          (let k = findIndex (\<lambda>a. TruckAssignment.truck_id a = selectedTruck) (truck_assignments r)
           in if 0 \<le> k \<and> nat k < length (routes m) then Some (routes m ! nat k) else None))"

section \<open>Facts about the fallback response\<close>

subsection \<open>Projections and list helpers\<close>

lemma demo_truck_assignments [simp]: "truck_assignments (getFallbackDemo now) = truckAssignments"
  by (simp add: getFallbackDemo_def)

lemma demo_hub_usage [simp]: "hub_usage (getFallbackDemo now) = hubUsage"
  by (simp add: getFallbackDemo_def)

lemma demo_congestion_per_time [simp]: "congestion_per_time (getFallbackDemo now) = congestionPerTime"
  by (simp add: getFallbackDemo_def)

lemma demo_pollution_per_zone [simp]: "pollution_per_zone (getFallbackDemo now) = pollutionPerZone"
  by (simp add: getFallbackDemo_def)

lemma demo_hubs [simp]: "OptimizeResponse.hubs (getFallbackDemo now) = hubList"
  by (simp add: getFallbackDemo_def)

lemma demo_platform_summary [simp]: "platform_summary (getFallbackDemo now) = Some platformSummary"
  by (simp add: getFallbackDemo_def)

lemma demo_artificial_map [simp]: "artificial_map (getFallbackDemo now) = Some artificialMap"
  by (simp add: getFallbackDemo_def)

lemma demo_deliveries [simp]: "deliveries (getFallbackDemo now) = Some deliveries_local"
  by (simp add: getFallbackDemo_def)

lemma length_truckAssignments: "length truckAssignments = 24"
  by (simp add: truckAssignments_def)

lemma truckAssignments_nth:
  "k < 24 \<Longrightarrow> truckAssignments ! k =
     \<lparr>TruckAssignment.truck_id = k, TruckAssignment.hub_id = k mod 4,
      TruckAssignment.slot_id = (k * 5) mod 24\<rparr>"
  by (simp add: truckAssignments_def)

text \<open>The reads \<open>hubs[a.hub_id]\<close> of the hub labels stay inside the array.\<close>

lemma hub_label_index_in_range:
  "a \<in> set truckAssignments \<Longrightarrow> TruckAssignment.hub_id a < length hubLabels"
  by (auto simp: truckAssignments_def hubLabels_def)

lemma hubUsage_eq:
  "hubUsage = [\<lparr>HubUsageItem.hub_id = 0, assigned = 12, capacity = 20, utilization_pct = 60\<rparr>,
               \<lparr>HubUsageItem.hub_id = 1, assigned = 8, capacity = 20, utilization_pct = 40\<rparr>,
               \<lparr>HubUsageItem.hub_id = 2, assigned = 10, capacity = 20, utilization_pct = 50\<rparr>,
               \<lparr>HubUsageItem.hub_id = 3, assigned = 6, capacity = 20, utilization_pct = 30\<rparr>]"
  by (simp add: hubUsage_def Let_def upt_rec)

lemma filter_key_le_one:
  "distinct (map f xs) \<Longrightarrow> length (filter (\<lambda>a. f a = v) xs) \<le> 1"
proof (induction xs)
  case Nil
  then show ?case by simp
next
  case (Cons a xs)
  show ?case
  proof (cases "f a = v")
    case True
    with Cons.prems have "v \<notin> f ` set xs" by auto
    then have "filter (\<lambda>a. f a = v) xs = []" by (auto simp: filter_empty_conv)
    with True show ?thesis by simp
  next
    case False
    with Cons show ?thesis by simp
  qed
qed

subsection \<open>Capacity per hub and slot\<close>

lemma hub_slot_pairs_distinct:
  "distinct (map (\<lambda>a. (TruckAssignment.hub_id a, TruckAssignment.slot_id a)) truckAssignments)"
  by code_simp

lemma count_at_hub_slot_le_one: "count_at_hub_slot truckAssignments h s \<le> 1"
proof -
  have "count_at_hub_slot truckAssignments h s =
        length (filter (\<lambda>a. (TruckAssignment.hub_id a, TruckAssignment.slot_id a) = (h, s)) truckAssignments)"
    by (simp add: count_at_hub_slot_def)
  also have "\<dots> \<le> 1"
    by (rule filter_key_le_one [OF hub_slot_pairs_distinct])
  finally show ?thesis .
qed

lemma assigned_hubs_reported:
  "TruckAssignment.hub_id ` set truckAssignments \<subseteq> HubUsageItem.hub_id ` set hubUsage"
  by (auto simp: truckAssignments_def hubUsage_eq)

text \<open>
  C1. In the response of \<open>getFallbackDemo\<close> (24 trucks over 4 hubs of capacity 20), for every
  hub \<open>h\<close> with an entry in \<open>hub_usage\<close> and every slot \<open>s\<close>, the number of entries of
  \<open>truck_assignments\<close> with \<open>hub_id = h\<close> and \<open>slot_id = s\<close> is at most the capacity that
  entry reports; and every hub that receives an assignment has such an entry.
\<close>

theorem hub_slot_within_capacity:
  "(\<forall>u \<in> set (hub_usage (getFallbackDemo now)).
      count_at_hub_slot (truck_assignments (getFallbackDemo now)) (HubUsageItem.hub_id u) s \<le> capacity u)
   \<and> TruckAssignment.hub_id ` set (truck_assignments (getFallbackDemo now))
       \<subseteq> HubUsageItem.hub_id ` set (hub_usage (getFallbackDemo now))"
proof
  show "\<forall>u \<in> set (hub_usage (getFallbackDemo now)).
      count_at_hub_slot (truck_assignments (getFallbackDemo now)) (HubUsageItem.hub_id u) s \<le> capacity u"
  proof
    fix u assume "u \<in> set (hub_usage (getFallbackDemo now))"
    then have "capacity u = 20" by (auto simp: hubUsage_eq)
    moreover have "count_at_hub_slot truckAssignments (HubUsageItem.hub_id u) s \<le> 1"
      by (rule count_at_hub_slot_le_one)
    ultimately show "count_at_hub_slot (truck_assignments (getFallbackDemo now)) (HubUsageItem.hub_id u) s
                     \<le> capacity u"
      by simp
  qed
next
  show "TruckAssignment.hub_id ` set (truck_assignments (getFallbackDemo now))
        \<subseteq> HubUsageItem.hub_id ` set (hub_usage (getFallbackDemo now))"
    using assigned_hubs_reported by simp
qed

theorem hub_slot_within_capacity_witness:
  "\<lparr>HubUsageItem.hub_id = 0, assigned = 12, capacity = 20, utilization_pct = 60\<rparr>
     \<in> set (hub_usage (getFallbackDemo ''2026-01-01T00:00:00.000Z''))
   \<and> count_at_hub_slot (truck_assignments (getFallbackDemo ''2026-01-01T00:00:00.000Z'')) 0 0 \<le> 20"
proof -
  have mem: "\<lparr>HubUsageItem.hub_id = 0, assigned = 12, capacity = 20, utilization_pct = 60\<rparr>
               \<in> set (hub_usage (getFallbackDemo ''2026-01-01T00:00:00.000Z''))"
    by (simp add: hubUsage_eq)
  from hub_slot_within_capacity [of "''2026-01-01T00:00:00.000Z''" 0, THEN conjunct1, rule_format, OF mem] mem
  show ?thesis by simp
qed

subsection \<open>One assignment per truck\<close>

lemma truck_ids_distinct: "distinct (map TruckAssignment.truck_id truckAssignments)"
  by code_simp

text \<open>
  C2. The \<open>truck_id\<close> values of the 24 assignments built by \<open>getFallbackDemo\<close> are pairwise
  distinct: no truck is bound to two (hub, slot) pairs.
\<close>

theorem one_assignment_per_truck:
  "distinct (map TruckAssignment.truck_id (truck_assignments (getFallbackDemo now)))
   \<and> length (truck_assignments (getFallbackDemo now)) = 24"
  by (simp add: truck_ids_distinct length_truckAssignments)

subsection \<open>Congestion per time slot\<close>

lemma slot_counts: "\<forall>s \<in> set [0..<24]. count_at_slot truckAssignments s = 1"
  by code_simp

lemma congestion_entries:
  "\<forall>s \<in> set [0..<24]. CongestionPerTimeItem.slot_id (congestionPerTime ! s) = s \<and>
      CongestionPerTimeItem.trucks (congestionPerTime ! s) = 1"
  by code_simp

lemma length_congestionPerTime: "length congestionPerTime = 24"
  by (simp add: congestionPerTime_def)

text \<open>
  C3. For every slot \<open>s\<close> in [0,23], the entry of \<open>congestion_per_time\<close> for \<open>s\<close> reports as
  \<open>trucks\<close> the number of assignments whose \<open>slot_id\<close> is \<open>s\<close>. In \<open>getFallbackDemo\<close> the
  slots \<open>(k * 5) mod 24\<close> hit every slot exactly once, so that number is 1 and the
  alternative after \<open>||\<close> is never taken.
\<close>

theorem congestion_counts_assignments:
  assumes "s < 24"
  shows "length (congestion_per_time (getFallbackDemo now)) = 24
       \<and> CongestionPerTimeItem.slot_id (congestion_per_time (getFallbackDemo now) ! s) = s
       \<and> CongestionPerTimeItem.trucks (congestion_per_time (getFallbackDemo now) ! s)
           = count_at_slot (truck_assignments (getFallbackDemo now)) s
       \<and> count_at_slot (truck_assignments (getFallbackDemo now)) s = 1"
proof -
  from assms have "s \<in> set [0..<24]" by simp
  with slot_counts congestion_entries
  have "count_at_slot truckAssignments s = 1"
    and "CongestionPerTimeItem.slot_id (congestionPerTime ! s) = s"
    and "CongestionPerTimeItem.trucks (congestionPerTime ! s) = 1"
    by blast+
  then show ?thesis by (simp add: length_congestionPerTime)
qed

theorem congestion_counts_assignments_witness:
  "(7::nat) < 24
   \<and> CongestionPerTimeItem.trucks (congestion_per_time (getFallbackDemo ''2026-01-01T00:00:00.000Z'') ! 7)
       = count_at_slot (truck_assignments (getFallbackDemo ''2026-01-01T00:00:00.000Z'')) 7
   \<and> count_at_slot (truck_assignments (getFallbackDemo ''2026-01-01T00:00:00.000Z'')) 7 = 1"
proof -
  have h: "(7::nat) < 24" by simp
  from congestion_counts_assignments [OF h, of "''2026-01-01T00:00:00.000Z''"] h
  show ?thesis by simp
qed

subsection \<open>Hub usage table\<close>

lemma hub_counts: "map (count_at_hub truckAssignments) [0, 1, 2, 3] = [6, 6, 6, 6]"
  by code_simp

text \<open>
  C4, as claimed: for every hub \<open>h\<close>, \<open>hub_usage[h].assigned\<close> equals the number of
  \<open>truck_assignments\<close> with \<open>hub_id = h\<close>. It fails for hub 0 of \<open>getFallbackDemo\<close>: the
  table says 12, the assignment list holds 6.
\<close>

theorem hub_usage_assigned_counterexample:
  "assigned (hub_usage (getFallbackDemo []) ! 0)
     \<noteq> count_at_hub (truck_assignments (getFallbackDemo []))
         (HubUsageItem.hub_id (hub_usage (getFallbackDemo []) ! 0))"
  using hub_counts by (simp add: hubUsage_eq)

text \<open>
  C4, amended: in \<open>getFallbackDemo\<close> the hub usage table has one entry per hub 0..3 whose
  \<open>assigned\<close> is the literal of \<open>[12, 8, 10, 6]\<close> at that hub (not the count of the hub's
  assignments, which is 6 for each hub), whose \<open>capacity\<close> is 20, and whose
  \<open>utilization_pct\<close> is \<open>100 * assigned / capacity\<close>.
\<close>

theorem hub_usage_table:
  "map HubUsageItem.hub_id (hub_usage (getFallbackDemo now)) = [0, 1, 2, 3]
   \<and> map assigned (hub_usage (getFallbackDemo now)) = [12, 8, 10, 6]
   \<and> map capacity (hub_usage (getFallbackDemo now)) = [20, 20, 20, 20]
   \<and> map (count_at_hub (truck_assignments (getFallbackDemo now))) [0, 1, 2, 3] = [6, 6, 6, 6]
   \<and> map utilization_pct (hub_usage (getFallbackDemo now))
       = map (\<lambda>u. 100 * of_nat (assigned u) / of_nat (capacity u)) (hub_usage (getFallbackDemo now))"
  using hub_counts by (simp add: hubUsage_eq)

subsection \<open>Status and objective value\<close>

text \<open>
  C5, as claimed: the \<open>status\<close> of every response is exactly one of the tags \<open>optimal\<close>,
  \<open>feasible\<close>, \<open>infeasible\<close>. The status of \<open>getFallbackDemo\<close> is none of these strings.
\<close>

theorem status_tag_counterexample:
  "OptimizeResponse.status (getFallbackDemo []) \<notin> {''optimal'', ''feasible'', ''infeasible''}"
  by (simp add: getFallbackDemo_def)

text \<open>
  C5, amended: the \<open>status\<close> of \<open>getFallbackDemo\<close> is the capitalised string \<open>Optimal\<close>, which
  is the tag \<open>optimal\<close> up to letter case; its \<open>objective_value\<close> is not null (it is -10000),
  and it carries 24 assignments.
\<close>

theorem status_and_objective:
  "OptimizeResponse.status (getFallbackDemo now) = ''Optimal''
   \<and> toLowerCase (OptimizeResponse.status (getFallbackDemo now)) = ''optimal''
   \<and> objective_value (getFallbackDemo now) = Some (- 10000)
   \<and> length (truck_assignments (getFallbackDemo now)) = 24
   \<and> n_assigned (getFallbackDemo now) = 24"
  by (simp add: getFallbackDemo_def toLowerCase_def length_truckAssignments)

subsection \<open>Pollution per zone\<close>

lemma pollution_entry:
  "p \<in> set pollutionPerZone \<Longrightarrow>
     PollutionPerZoneItem.zone_id p < 10 \<and>
     pollution_level p = 0.2 + 0.6 * (of_nat (PollutionPerZoneItem.zone_id p) / 10)"
  by (auto simp: pollutionPerZone_def)

lemma rat_of_zone_le_9:
  assumes "n < (10::nat)"
  shows "(of_nat n :: rat) \<le> 9"
proof -
  from assms have "n \<le> 9" by simp
  then have "(of_nat n :: rat) \<le> of_nat 9" by (simp only: of_nat_le_iff)
  then show ?thesis by simp
qed

text \<open>
  C7. For every zone entry of \<open>pollution_per_zone\<close> in the response of \<open>getFallbackDemo\<close>,
  \<open>pollution_level\<close> lies in [0, 1]: it is \<open>0.2 + 0.6 * (z / 10)\<close> for the entry's zone
  \<open>z\<close> in 0..9, which lies in [0.2, 0.74]. The arithmetic is exact rational arithmetic.
\<close>

theorem pollution_in_unit_interval:
  "\<forall>p \<in> set (pollution_per_zone (getFallbackDemo now)).
     0 \<le> pollution_level p \<and> pollution_level p \<le> 1 \<and>
     0.2 \<le> pollution_level p \<and> pollution_level p \<le> 0.74 \<and>
     pollution_level p = 0.2 + 0.6 * (of_nat (PollutionPerZoneItem.zone_id p) / 10)"
proof
  fix p assume "p \<in> set (pollution_per_zone (getFallbackDemo now))"
  then have mem: "p \<in> set pollutionPerZone" by simp
  from pollution_entry [OF mem]
  have z: "PollutionPerZoneItem.zone_id p < 10"
    and eq: "pollution_level p = 0.2 + 0.6 * (of_nat (PollutionPerZoneItem.zone_id p) / 10)"
    by simp_all
  from z have "(of_nat (PollutionPerZoneItem.zone_id p) :: rat) \<le> 9"
    by (rule rat_of_zone_le_9)
  moreover have "(0::rat) \<le> of_nat (PollutionPerZoneItem.zone_id p)" by simp
  ultimately show "0 \<le> pollution_level p \<and> pollution_level p \<le> 1 \<and>
     0.2 \<le> pollution_level p \<and> pollution_level p \<le> 0.74 \<and>
     pollution_level p = 0.2 + 0.6 * (of_nat (PollutionPerZoneItem.zone_id p) / 10)"
    using eq by simp
qed

theorem pollution_in_unit_interval_witness:
  "\<lparr>PollutionPerZoneItem.zone_id = 9, pollution_level = 37 / 50, truck_count = 2\<rparr>
     \<in> set (pollution_per_zone (getFallbackDemo ''2026-01-01T00:00:00.000Z''))
   \<and> (0::rat) \<le> 37 / 50 \<and> (37 / 50 :: rat) \<le> 1"
proof -
  have mem: "\<lparr>PollutionPerZoneItem.zone_id = 9, pollution_level = 37 / 50, truck_count = 2\<rparr>
               \<in> set (pollution_per_zone (getFallbackDemo ''2026-01-01T00:00:00.000Z''))"
    by (simp add: pollutionPerZone_def upt_rec)
  from pollution_in_unit_interval [of "''2026-01-01T00:00:00.000Z''", rule_format, OF mem] mem
  show ?thesis by simp
qed

subsection \<open>The clock\<close>

text \<open>
  The clock reading of a call of \<open>getFallbackDemo\<close> reaches the field \<open>last_updated\<close> and no
  other field of the response.
\<close>

lemma clock_reaches_only_last_updated:
  "getFallbackDemo now = (getFallbackDemo now')\<lparr>last_updated := Some now\<rparr>"
  by (simp add: getFallbackDemo_def)

subsection \<open>Quiet slots per zone\<close>

lemma sort_key_cong_on_set:
  "(\<And>a. a \<in> set xs \<Longrightarrow> f a = g a) \<Longrightarrow> sort_key f xs = sort_key g xs"
proof (induction xs)
  case Nil
  then show ?case by simp
next
  case (Cons a xs)
  have ins: "insort_key f a ys = insort_key g a ys" if "set ys \<subseteq> set xs" for ys
    using that
  proof (induction ys)
    case Nil
    then show ?case by simp
  next
    case (Cons b ys)
    then show ?case using Cons.prems \<open>\<And>a'. a' \<in> set (a # xs) \<Longrightarrow> f a' = g a'\<close> by simp
  qed
  have "sort_key f xs = sort_key g xs" using Cons by simp
  moreover have "set (sort_key g xs) \<subseteq> set xs" by simp
  ultimately show ?case by (simp add: ins)
qed

lemma incoming_demo_unfold:
  "incoming_trucks (getFallbackDemo now) z s =
     length (filter (\<lambda>a. TruckAssignment.slot_id a = s \<and>
                          (\<exists>h \<in> set hubList. HubMapItem.hub_id h = TruckAssignment.hub_id a \<and>
                                              HubMapItem.zone_id h = z))
                    truckAssignments)"
  by (simp add: incoming_trucks_def)

text \<open>
  Hub \<open>h\<close> lies in zone \<open>h\<close> and receives the trucks \<open>k\<close> with \<open>k mod 4 = h\<close>, whose slots
  \<open>(k * 5) mod 24\<close> are the six slots \<open>s\<close> with \<open>s mod 4 = h\<close>.
\<close>

lemma incoming_demo_table:
  "\<forall>z \<in> set [0..<4]. \<forall>s \<in> set [0..<24].
     length (filter (\<lambda>a. TruckAssignment.slot_id a = s \<and>
                          (\<exists>h \<in> set hubList. HubMapItem.hub_id h = TruckAssignment.hub_id a \<and>
                                              HubMapItem.zone_id h = z))
                    truckAssignments) = (if s mod 4 = z then 1 else 0)"
  by code_simp

lemma incoming_demo_hub_zone:
  "z < 4 \<Longrightarrow> s < 24 \<Longrightarrow> incoming_trucks (getFallbackDemo now) z s = (if s mod 4 = z then 1 else 0)"
  using incoming_demo_table by (simp add: incoming_demo_unfold)

lemma incoming_demo_no_hub:
  "4 \<le> z \<Longrightarrow> incoming_trucks (getFallbackDemo now) z s = 0"
  by (auto simp: incoming_demo_unfold hubList_def)

lemma quietest_hub_zone_eval:
  "\<forall>z \<in> set [0..<4].
     take 5 (sort_key (\<lambda>s. ((if s mod 4 = z then 1 else 0) :: nat, s)) [0..<24]) \<noteq> [0, 1, 2, 3, 4]"
  by code_simp

lemma quietest_zone0_eval:
  "take 5 (sort_key (\<lambda>s. ((if s mod 4 = 0 then 1 else 0) :: nat, s)) [0..<24]) = [1, 2, 3, 5, 6]"
  by code_simp

lemma quietest_demo_hub_zone:
  assumes "z < 4"
  shows "quietest_slots (getFallbackDemo now) z 5
       = take 5 (sort_key (\<lambda>s. ((if s mod 4 = z then 1 else 0) :: nat, s)) [0..<24])"
proof -
  have "sort_key (\<lambda>s. (incoming_trucks (getFallbackDemo now) z s, s)) [0..<24]
      = sort_key (\<lambda>s. ((if s mod 4 = z then 1 else 0) :: nat, s)) [0..<24]"
    by (rule sort_key_cong_on_set) (simp add: incoming_demo_hub_zone assms)
  then show ?thesis by (simp add: quietest_slots_def)
qed

lemma quietest_demo_no_hub:
  assumes "4 \<le> z"
  shows "quietest_slots (getFallbackDemo now) z 5 = [0, 1, 2, 3, 4]"
proof -
  have "(\<lambda>s. (incoming_trucks (getFallbackDemo now) z s, s)) = (\<lambda>s. (0, s))"
    by (simp add: incoming_demo_no_hub assms)
  moreover have "sorted (map (\<lambda>s::nat. (0::nat, s)) [0..<24])"
    by (simp add: sorted_map less_eq_prod_def sorted_wrt_iff_nth_less)
  ultimately have "sort_key (\<lambda>s. (incoming_trucks (getFallbackDemo now) z s, s)) [0..<24] = [0..<24]"
    by (simp add: sort_key_id_if_sorted)
  then show ?thesis by (simp add: quietest_slots_def upt_rec)
qed

lemma quiet_slots_of_demo:
  assumes "z < 10"
  shows "quiet_slots_of (getFallbackDemo now) z = Some [0, 1, 2, 3, 4]"
proof -
  from assms have "z \<in> set [0..<10]" by simp
  moreover have "\<forall>z \<in> set [0..<10].
      map_option suggested_slots (find (\<lambda>q. QuietSlots.zone_id q = z) (quiet_slots_by_zone platformSummary))
        = Some [0, 1, 2, 3, 4]"
    by code_simp
  ultimately show ?thesis by (simp add: quiet_slots_of_def)
qed

text \<open>
  C6, as claimed: for every zone \<open>z\<close>, the suggested slots are the slots with the fewest
  incoming trucks for the hubs of zone \<open>z\<close>, ascending by truck count, ties by slot id. It
  fails for zone 0 of \<open>getFallbackDemo\<close>: the suggestion is \<open>[0, 1, 2, 3, 4]\<close>, while the hub
  of zone 0 has a truck in slots 0 and 4 and the five quietest slots are \<open>[1, 2, 3, 5, 6]\<close>.
\<close>

theorem quiet_slots_counterexample:
  "quiet_slots_of (getFallbackDemo []) 0 = Some [0, 1, 2, 3, 4]
   \<and> quietest_slots (getFallbackDemo []) 0 5 = [1, 2, 3, 5, 6]
   \<and> quiet_slots_of (getFallbackDemo []) 0 \<noteq> Some (quietest_slots (getFallbackDemo []) 0 5)"
  by (simp add: quiet_slots_of_demo quietest_demo_hub_zone quietest_zone0_eval)

text \<open>
  C6, amended: in \<open>getFallbackDemo\<close> every zone \<open>z\<close> in 0..9 gets the fixed suggestion
  \<open>[0, 1, 2, 3, 4]\<close>, whatever the assignments are; it is the list of the five quietest slots
  (ascending by truck count, ties by slot id) exactly for the zones without a hub, 4..9.
\<close>

theorem quiet_slots_literal:
  assumes "z < 10"
  shows "quiet_slots_of (getFallbackDemo now) z = Some [0, 1, 2, 3, 4]
       \<and> (quietest_slots (getFallbackDemo now) z 5 = [0, 1, 2, 3, 4]) = (4 \<le> z)"
proof (cases "4 \<le> z")
  case True
  then show ?thesis by (simp add: quiet_slots_of_demo assms quietest_demo_no_hub)
next
  case False
  then have z: "z < 4" by simp
  then have "z \<in> set [0..<4]" by simp
  with quietest_hub_zone_eval
  have "take 5 (sort_key (\<lambda>s. ((if s mod 4 = z then 1 else 0) :: nat, s)) [0..<24]) \<noteq> [0, 1, 2, 3, 4]"
    by blast
  with z show ?thesis by (simp add: quiet_slots_of_demo assms quietest_demo_hub_zone)
qed

theorem quiet_slots_literal_witness:
  "(7::nat) < 10
   \<and> quiet_slots_of (getFallbackDemo ''2026-01-01T00:00:00.000Z'') 7 = Some [0, 1, 2, 3, 4]
   \<and> quietest_slots (getFallbackDemo ''2026-01-01T00:00:00.000Z'') 7 5 = [0, 1, 2, 3, 4]"
proof -
  have h: "(7::nat) < 10" by simp
  from quiet_slots_literal [OF h, of "''2026-01-01T00:00:00.000Z''"] show ?thesis by simp
qed

subsection \<open>When fetchDemo answers\<close>

text \<open>
  Whenever the body read settles, \<open>fetchDemo\<close> returns a \<open>DemoResult\<close> and no exception
  leaves it. The facts are stated on the behaviour of the network itself: the settle time
  against the 8000 ms deadline, and what the response and its body turn out to be.
\<close>

lemma fetchDemo_api_body:
  "t < 8000 \<Longrightarrow>
     fetchDemo (Settles t (Resolved_ok (Body_settled (Inr v)))) now = Some \<lparr>data = v, fromApi = True\<rparr>"
  by (simp add: fetchDemo_def DEMO_TIMEOUT_MS_def)

lemma fetchDemo_body_parse_failure:
  "t < 8000 \<Longrightarrow>
     fetchDemo (Settles t (Resolved_ok (Body_settled (Inl e)))) now
       = Some \<lparr>data = getFallbackDemo now, fromApi = False\<rparr>"
  by (simp add: fetchDemo_def DEMO_TIMEOUT_MS_def)

lemma fetchDemo_not_ok:
  "t < 8000 \<Longrightarrow>
     fetchDemo (Settles t (Resolved_not_ok statusText (Body_settled b))) now
       = Some \<lparr>data = getFallbackDemo now, fromApi = False\<rparr>"
  by (simp add: fetchDemo_def DEMO_TIMEOUT_MS_def Let_def split: sum.splits err_json.splits)

lemma fetchDemo_network_failure:
  "fetchDemo (Settles t (Rejected e)) now = Some \<lparr>data = getFallbackDemo now, fromApi = False\<rparr>"
  by (simp add: fetchDemo_def)

lemma fetchDemo_timeout:
  "fetchDemo Never_settles now = Some \<lparr>data = getFallbackDemo now, fromApi = False\<rparr>"
  "8000 \<le> t \<Longrightarrow> fetchDemo (Settles t out) now = Some \<lparr>data = getFallbackDemo now, fromApi = False\<rparr>"
  by (simp_all add: fetchDemo_def DEMO_TIMEOUT_MS_def)

text \<open>
  \<open>fetchDemo\<close> fails to return in exactly one situation: the response arrives before the
  deadline and its body read stays pending.
\<close>

lemma fetchDemo_pending_iff:
  "fetchDemo net now = None \<longleftrightarrow>
     (\<exists>t. t < 8000 \<and> (net = Settles t (Resolved_ok Body_pending)
                       \<or> (\<exists>statusText. net = Settles t (Resolved_not_ok statusText Body_pending))))"
proof (cases net)
  case Never_settles
  then show ?thesis by (simp add: fetchDemo_def)
next
  case (Settles t out)
  show ?thesis
  proof (cases "t < 8000")
    case False
    with Settles show ?thesis by (simp add: fetchDemo_def DEMO_TIMEOUT_MS_def)
  next
    case True
    with Settles show ?thesis
      by (cases out)
         (auto simp: fetchDemo_def DEMO_TIMEOUT_MS_def Let_def
               split: body_read.splits sum.splits err_json.splits)
  qed
qed

text \<open>
  C9. The claim: \<open>fetchDemo\<close> is total and never propagates an error; for every outcome of
  the underlying fetch it returns a \<open>DemoResult\<close>, the parsed body with \<open>fromApi = true\<close> on
  a successful ok response and the fallback with \<open>fromApi = false\<close> otherwise. The code
  does not return at a fetch that succeeds within the deadline and whose body never
  completes: the timer was cleared when the headers arrived, \<open>await res.json()\<close> stays
  pending, and neither the return nor the \<open>catch\<close> is reached. This holds for an ok
  response (here after 100 ms) and for one that is not ok.
\<close>

theorem fetchDemo_hangs_on_stalled_body:
  "fetchDemo (Settles 100 (Resolved_ok Body_pending)) ''2026-01-01T00:00:00.000Z'' = None
   \<and> fetchDemo (Settles 100 (Resolved_not_ok ''Service Unavailable'' Body_pending))
        ''2026-01-01T00:00:00.000Z'' = None"
  by (simp add: fetchDemo_def DEMO_TIMEOUT_MS_def)

subsection \<open>Parallel arrays of the fallback response\<close>

lemma deliveries_nth:
  assumes "k < 24"
  shows "Delivery.truck_id (deliveries_local ! k) = TruckAssignment.truck_id (truckAssignments ! k)
       \<and> to_hub_id (deliveries_local ! k) = TruckAssignment.hub_id (truckAssignments ! k)
       \<and> scheduled_slot (deliveries_local ! k) = TruckAssignment.slot_id (truckAssignments ! k)"
  using assms by (simp add: deliveries_local_def length_truckAssignments)

lemma findIndex_map_upt:
  "findIndex (\<lambda>a. f a = k) (map g [m..<n]) = (if m \<le> k \<and> k < n then int (k - m) else - 1)"
  if "\<And>q. f (g q) = q"
  using that
proof (induction "n - m" arbitrary: m)
  case 0
  then show ?case by simp
next
  case (Suc d)
  then have lt: "m < n" by simp
  have step: "[m..<n] = m # [Suc m..<n]" using lt by (simp add: upt_rec)
  have "d = n - Suc m" using Suc.hyps(2) by simp
  from Suc.hyps(1) [OF this Suc.prems]
  have IH: "findIndex (\<lambda>a. f a = k) (map g [Suc m..<n])
            = (if Suc m \<le> k \<and> k < n then int (k - Suc m) else - 1)" .
  show ?case
    using lt Suc.prems by (auto simp: step IH Let_def)
qed

lemma driver_route_demo:
  assumes "k < 24"
  shows "driver_route (getFallbackDemo now) k = Some (routes artificialMap ! k)"
proof -
  have "findIndex (\<lambda>a. TruckAssignment.truck_id a = k) truckAssignments = int k"
    unfolding truckAssignments_def using assms
    by (subst findIndex_map_upt) simp_all
  moreover have "length (routes artificialMap) = 24"
    by (simp add: artificialMap_def length_truckAssignments)
  ultimately show ?thesis using assms
    by (simp add: driver_route_def Let_def)
qed

text \<open>
  C10. \<open>getFallbackDemo\<close> returns \<open>deliveries\<close>, \<open>artificial_map.routes\<close> and
  \<open>platform_summary.driver_tips\<close> with one entry per element of \<open>truck_assignments\<close>: all
  have length 24, which is also \<open>n_assigned\<close> and \<open>n_trucks_assigned\<close>; and at every index
  \<open>k\<close> the delivery's \<open>truck_id\<close>, \<open>to_hub_id\<close> and \<open>scheduled_slot\<close> are the assignment's
  \<open>truck_id\<close>, \<open>hub_id\<close> and \<open>slot_id\<close>. The route lookup of DriverView for truck \<open>k\<close> then
  reads the route at index \<open>k\<close>.
\<close>

theorem demo_arrays_aligned:
  assumes "k < 24"
  shows "\<exists>ds m ps.
           deliveries (getFallbackDemo now) = Some ds
         \<and> artificial_map (getFallbackDemo now) = Some m
         \<and> platform_summary (getFallbackDemo now) = Some ps
         \<and> length (truck_assignments (getFallbackDemo now)) = 24
         \<and> length ds = 24 \<and> length (routes m) = 24 \<and> length (driver_tips ps) = 24
         \<and> n_assigned (getFallbackDemo now) = 24 \<and> n_trucks_assigned ps = 24
         \<and> Delivery.truck_id (ds ! k) = TruckAssignment.truck_id (truck_assignments (getFallbackDemo now) ! k)
         \<and> to_hub_id (ds ! k) = TruckAssignment.hub_id (truck_assignments (getFallbackDemo now) ! k)
         \<and> scheduled_slot (ds ! k) = TruckAssignment.slot_id (truck_assignments (getFallbackDemo now) ! k)
         \<and> driver_route (getFallbackDemo now) k = Some (routes m ! k)"
proof -
  have "length deliveries_local = 24"
    by (simp add: deliveries_local_def length_truckAssignments)
  moreover have "length (routes artificialMap) = 24"
    by (simp add: artificialMap_def length_truckAssignments)
  moreover have "length (driver_tips platformSummary) = 24"
    by (simp add: platformSummary_def driverTips_def length_truckAssignments)
  moreover have "n_trucks_assigned platformSummary = 24"
    by (simp add: platformSummary_def)
  moreover have "n_assigned (getFallbackDemo now) = 24"
    by (simp add: getFallbackDemo_def)
  ultimately show ?thesis
    using deliveries_nth [OF assms] driver_route_demo [OF assms]
    by (simp add: length_truckAssignments)
qed

theorem demo_arrays_aligned_witness:
  "(7::nat) < 24 \<and>
   (\<exists>ds. deliveries (getFallbackDemo ''2026-01-01T00:00:00.000Z'') = Some ds \<and> length ds = 24 \<and>
      Delivery.truck_id (ds ! 7)
        = TruckAssignment.truck_id (truck_assignments (getFallbackDemo ''2026-01-01T00:00:00.000Z'') ! 7))"
proof -
  have h: "(7::nat) < 24" by simp
  from demo_arrays_aligned [OF h, of "''2026-01-01T00:00:00.000Z''"] h show ?thesis by blast
qed

end
